theory Spec2Isabelle
  imports Main "HOL-Library.Word" "HOL-Library.Sublist"
begin

section \<open>Data model\<close>

text \<open>
  The session core of the application: the audit logger (\<^verbatim>\<open>src/services/auditLogger.ts\<close>),
  the authentication provider (the module \<^verbatim>\<open>@/context/AuthContext\<close>, whose text follows
  the page component in \<^verbatim>\<open>src/components/UnauthorizedPage.tsx\<close>) and the API client
  (the module \<^verbatim>\<open>@/services/apiClient\<close>, whose text follows the test setup in
  \<^verbatim>\<open>unnamed/part_002\<close>). TypeScript interfaces are records, string-literal unions are
  datatypes, \<^verbatim>\<open>T | null\<close> is \<open>T option\<close>. JavaScript strings are modelled as lists of
  code units in the range U+0000 .. U+00FF (the type \<open>char\<close>); numbers that hold epoch
  seconds and milliseconds are integers.
\<close>

type_synonym byte = "8 word"

subsection \<open>\<^verbatim>\<open>types/user.ts\<close>\<close>

datatype UserRole = viewer | reviewer | admin

record JwtPayload =
  sub :: string
  email :: string
  role :: UserRole
  displayName :: string
  exp :: int
  iat :: int

text \<open>The fields of \<^verbatim>\<open>AuthUser\<close> carry a prime: \<^verbatim>\<open>id\<close> is the identity function of HOL,
  and the other three names are already fields of \<open>JwtPayload\<close>.\<close>

record AuthUser =
  id' :: string
  email' :: string
  role' :: UserRole
  displayName' :: string

subsection \<open>\<^verbatim>\<open>types/audit.ts\<close>\<close>

datatype AuditAction =
    Login
  | LoginFailed
  | Logout
  | ReviewSubmitted
  | AdminPageAccess
  | UnauthorizedAccessAttempt
  | TokenRefresh
  | SearchPerformed

text \<open>The values that the logger stores in \<^verbatim>\<open>metadata: Record<string, unknown>\<close>:
  a string (\<^verbatim>\<open>emailHash\<close>) or a number (\<^verbatim>\<open>termLength\<close>).\<close>

datatype meta_value = MString string | MNumber nat

record AuditEvent =
  timestamp :: string
  sessionId :: string
  userId :: "string option"
  action :: AuditAction
  target :: "string option"
  metadata :: "(string \<times> meta_value) list"
  correlationId :: string

subsection \<open>What the browser supplies\<close>

text \<open>
  Everything a piece of code reads from the platform while it runs without suspending:
  the clock, the correlation identifier (\<^verbatim>\<open>utils/correlationId\<close>), the next value of
  \<^verbatim>\<open>crypto.randomUUID()\<close>, the build-time variable \<^verbatim>\<open>VITE_API_BASE_URL\<close>, and the
  built-in functions \<^verbatim>\<open>atob\<close>, \<^verbatim>\<open>JSON.parse\<close> and
  \<^verbatim>\<open>crypto.subtle.digest('SHA-256', _)\<close>. A built-in that throws returns \<open>None\<close>.
  \<^verbatim>\<open>JSON.parse(json) as JwtPayload\<close> yields \<open>Some None\<close> for a value that
  \<^verbatim>\<open>!payload\<close> rejects (the JSON texts \<^verbatim>\<open>null\<close>, \<^verbatim>\<open>false\<close>, \<^verbatim>\<open>0\<close> and the empty
  string literal) and \<open>Some (Some p)\<close> for any other value, which the cast takes to be
  an object of the declared interface. The digest function is taken to resolve; a SHA-256
  digest is a 256-bit word.
\<close>

record env =
  dateNow :: int
  toISOString :: string
  getCorrelationId :: string
  randomUUID :: string
  VITE_API_BASE_URL :: "string option"
  atob :: "string \<Rightarrow> string option"
  JSON_parse :: "string \<Rightarrow> JwtPayload option option"
  digest :: "byte list \<Rightarrow> 256 word"

section \<open>The audit logger\<close>

text \<open>The module variables \<^verbatim>\<open>currentUserId\<close>, \<^verbatim>\<open>sessionId\<close> (here
  \<open>currentSessionId\<close>, since \<open>sessionId\<close> is a field of the event) and
  \<^verbatim>\<open>eventQueue\<close>.\<close>

record logger =
  currentUserId :: "string option"
  currentSessionId :: string
  eventQueue :: "AuditEvent list"

subsection \<open>\<^verbatim>\<open>hashEmail\<close>\<close>

text \<open>\<^verbatim>\<open>String.prototype.toLowerCase\<close> on code units up to U+00FF: the ASCII capitals
  and the Latin-1 capitals U+00C0 .. U+00DE (without the multiplication sign U+00D7) move
  up by 32.\<close>

definition toLowerCase :: "string \<Rightarrow> string" where
  "toLowerCase s =
     map (\<lambda>c. let n = (of_char c :: nat) in
            if (65 \<le> n \<and> n \<le> 90) \<or> (192 \<le> n \<and> n \<le> 222 \<and> n \<noteq> 215)
            then char_of (n + 32) else c) s"

text \<open>White space and line terminators of ECMAScript up to U+00FF: TAB, LF, VT, FF, CR,
  SP and NBSP.\<close>

definition isWhiteSpace :: "char \<Rightarrow> bool" where
  "isWhiteSpace c = ((of_char c :: nat) \<in> {9, 10, 11, 12, 13, 32, 160})"

definition trim :: "string \<Rightarrow> string" where
  "trim s = rev (dropWhile isWhiteSpace (rev (dropWhile isWhiteSpace s)))"

text \<open>\<^verbatim>\<open>new TextEncoder().encode\<close>: UTF-8, one byte below U+0080 and two bytes from
  there to U+00FF.\<close>

definition encode :: "string \<Rightarrow> byte list" where
  "encode s =
     concat (map (\<lambda>c. let n = (of_char c :: nat) in
                   if n < 128 then [of_nat n]
                   else [of_nat (192 + n div 64), of_nat (128 + n mod 64)]) s)"

text \<open>\<^verbatim>\<open>Array.from(new Uint8Array(hashBuffer))\<close>: the 32 bytes of the digest, the most
  significant first.\<close>

definition hashArray :: "256 word \<Rightarrow> byte list" where
  "hashArray hashBuffer = map (\<lambda>i. ucast (drop_bit (8 * (31 - i)) hashBuffer)) [0..<32]"

definition hexDigit :: "nat \<Rightarrow> char" where
  "hexDigit n = ''0123456789abcdef'' ! n"

text \<open>\<^verbatim>\<open>b.toString(16)\<close> for a byte: one digit below 16, two digits otherwise.\<close>

definition toString16 :: "byte \<Rightarrow> string" where
  "toString16 b =
     (if unat b < 16 then [hexDigit (unat b)]
      else [hexDigit (unat b div 16), hexDigit (unat b mod 16)])"

definition padStart :: "nat \<Rightarrow> char \<Rightarrow> string \<Rightarrow> string" where
  "padStart n c s = replicate (n - length s) c @ s"

text \<open>The two synchronous halves of \<^verbatim>\<open>hashEmail\<close>: what is handed to the digest, and
  what is made of the digest once it has resolved.\<close>

definition emailData :: "string \<Rightarrow> byte list" where
  "emailData email_arg = encode (trim (toLowerCase email_arg))"

definition hexOf :: "256 word \<Rightarrow> string" where
  "hexOf hashBuffer = concat (map (\<lambda>b. padStart 2 CHR ''0'' (toString16 b)) (hashArray hashBuffer))"


subsection \<open>Building and queueing events\<close>

definition buildEvent ::
  "env \<Rightarrow> logger \<Rightarrow> AuditAction \<Rightarrow> string option \<Rightarrow> (string \<times> meta_value) list \<Rightarrow> AuditEvent" where
  "buildEvent e q act tgt md =
     \<lparr> timestamp = toISOString e,
       sessionId = currentSessionId q,
       userId = currentUserId q,
       action = act,
       target = tgt,
       metadata = md,
       correlationId = getCorrelationId e \<rparr>"

text \<open>\<^verbatim>\<open>eventQueue.push(ev)\<close>\<close>

definition push :: "AuditEvent \<Rightarrow> logger \<Rightarrow> logger" where
  "push ev q = q\<lparr>eventQueue := eventQueue q @ [ev]\<rparr>"

text \<open>\<^verbatim>\<open>flushQueue\<close>: \<^verbatim>\<open>eventQueue.splice(0, eventQueue.length)\<close> empties the queue and
  returns the batch that \<^verbatim>\<open>sendBatch\<close> posts.\<close>

definition flushQueue :: "logger \<Rightarrow> AuditEvent list \<times> logger" where
  "flushQueue q = (if eventQueue q = [] then ([], q) else (eventQueue q, q\<lparr>eventQueue := []\<rparr>))"

definition setUser :: "string option \<Rightarrow> logger \<Rightarrow> logger" where
  "setUser uid q = q\<lparr>currentUserId := uid\<rparr>"

definition resetSession :: "env \<Rightarrow> logger \<Rightarrow> logger" where
  "resetSession e q = q\<lparr>currentSessionId := randomUUID e, currentUserId := None\<rparr>"

subsection \<open>The logging operations\<close>

text \<open>
  What a call of a logger method has done when it hands control back to its caller.
  \<open>Sync q\<close>: the method has run to its end and left the logger in state \<open>q\<close>.
  \<open>AwaitDigest q d k\<close>: the method is an \<^verbatim>\<open>async\<close> function that has suspended at
  \<^verbatim>\<open>await crypto.subtle.digest('SHA-256', d)\<close>, leaving the logger in state \<open>q\<close>;
  once the digest \<open>h\<close> has resolved, the rest of the method runs as \<open>k e' h q'\<close> on the
  platform values \<open>e'\<close> and the logger state \<open>q'\<close> of that later moment.
\<close>

datatype call =
    Sync logger
  | AwaitDigest logger "byte list" "env \<Rightarrow> 256 word \<Rightarrow> logger \<Rightarrow> logger"

definition logLogin_then :: "env \<Rightarrow> 256 word \<Rightarrow> logger \<Rightarrow> logger" where
  "logLogin_then e hashBuffer q =
     push (buildEvent e q Login None [(''emailHash'', MString (hexOf hashBuffer))]) q"

definition logLogin :: "string \<Rightarrow> logger \<Rightarrow> call" where
  "logLogin email_arg q = AwaitDigest q (emailData email_arg) logLogin_then"

definition logLoginFailed_then :: "env \<Rightarrow> 256 word \<Rightarrow> logger \<Rightarrow> logger" where
  "logLoginFailed_then e hashBuffer q =
     push (buildEvent e q LoginFailed None [(''emailHash'', MString (hexOf hashBuffer))]) q"

definition logLoginFailed :: "string \<Rightarrow> logger \<Rightarrow> call" where
  "logLoginFailed email_arg q = AwaitDigest q (emailData email_arg) logLoginFailed_then"

definition logLogout :: "env \<Rightarrow> logger \<Rightarrow> call" where
  "logLogout e q = Sync (push (buildEvent e q Logout None []) q)"

definition logReviewSubmitted :: "env \<Rightarrow> string \<Rightarrow> logger \<Rightarrow> call" where
  "logReviewSubmitted e movieId q = Sync (push (buildEvent e q ReviewSubmitted (Some movieId) []) q)"

definition logAdminPageAccess :: "env \<Rightarrow> string \<Rightarrow> logger \<Rightarrow> call" where
  "logAdminPageAccess e page q = Sync (push (buildEvent e q AdminPageAccess (Some page) []) q)"

definition logUnauthorizedAccess :: "env \<Rightarrow> string \<Rightarrow> logger \<Rightarrow> call" where
  "logUnauthorizedAccess e attemptedPath q =
     Sync (push (buildEvent e q UnauthorizedAccessAttempt (Some attemptedPath) []) q)"

definition logTokenRefresh :: "env \<Rightarrow> logger \<Rightarrow> call" where
  "logTokenRefresh e q = Sync (push (buildEvent e q TokenRefresh None []) q)"

definition logSearch :: "env \<Rightarrow> string \<Rightarrow> logger \<Rightarrow> call" where
  "logSearch e term q =
     Sync (push (buildEvent e q SearchPerformed None [(''termLength'', MNumber (length term))]) q)"

text \<open>Whether a call has run to its end when it returns, and the logger it leaves behind
  at that moment.\<close>

fun synchronous :: "call \<Rightarrow> bool" where
  "synchronous (Sync q) = True"
| "synchronous (AwaitDigest q d k) = False"

fun on_return :: "call \<Rightarrow> logger" where
  "on_return (Sync q) = q"
| "on_return (AwaitDigest q d k) = q"


section \<open>The authentication provider\<close>

definition REFRESH_BUFFER_SECONDS :: int where
  "REFRESH_BUFFER_SECONDS = 60"

text \<open>\<^verbatim>\<open>import.meta.env['VITE_API_BASE_URL'] ?? 'http://localhost:8080'\<close>\<close>

definition API_BASE :: "env \<Rightarrow> string" where
  "API_BASE e = (case VITE_API_BASE_URL e of None \<Rightarrow> ''http://localhost:8080'' | Some u \<Rightarrow> u)"

subsection \<open>\<^verbatim>\<open>decodeJwtPayload\<close> and \<^verbatim>\<open>jwtToAuthUser\<close>\<close>

text \<open>\<^verbatim>\<open>s.split(sep)\<close> for a separator of one character: the empty string gives one
  empty part.\<close>

fun split_str :: "char \<Rightarrow> string \<Rightarrow> string list" where
  "split_str sep [] = [[]]"
| "split_str sep (c # cs) =
     (if c = sep then [] # split_str sep cs
      else (case split_str sep cs of [] \<Rightarrow> [[c]] | p # ps \<Rightarrow> (c # p) # ps))"

text \<open>\<^verbatim>\<open>s.replace(/a/g, 'b')\<close> for single characters.\<close>

definition replace_all :: "char \<Rightarrow> char \<Rightarrow> string \<Rightarrow> string" where
  "replace_all a b s = map (\<lambda>c. if c = a then b else c) s"

text \<open>Every exception inside the \<^verbatim>\<open>try\<close> block (from \<^verbatim>\<open>atob\<close> or from
  \<^verbatim>\<open>JSON.parse\<close>) gives \<^verbatim>\<open>null\<close>.\<close>

definition decodeJwtPayload :: "env \<Rightarrow> string \<Rightarrow> JwtPayload option" where
  "decodeJwtPayload e tok =
     (let parts = split_str CHR ''.'' tok in
      if length parts \<noteq> 3 then None
      else
        let base64 = replace_all CHR ''_'' CHR ''/'' (replace_all CHR ''-'' CHR ''+'' (parts ! 1)) in
        case atob e base64 of
          None \<Rightarrow> None
        | Some json_text \<Rightarrow>
            (case JSON_parse e json_text of None \<Rightarrow> None | Some parsed \<Rightarrow> parsed))"

definition jwtToAuthUser :: "JwtPayload \<Rightarrow> AuthUser" where
  "jwtToAuthUser payload =
     \<lparr> id' = sub payload,
       email' = email payload,
       role' = role payload,
       displayName' = displayName payload \<rparr>"

subsection \<open>State\<close>

text \<open>
  The React state \<^verbatim>\<open>token\<close> and \<^verbatim>\<open>user\<close>, the ref \<^verbatim>\<open>refreshTimerRef\<close>, the
  logger module, and the part of the browser that \<^verbatim>\<open>setTimeout\<close> and
  \<^verbatim>\<open>clearTimeout\<close> act on: the one-shot timers of the provider that are armed and have
  not fired, each with its handle and its delay in milliseconds, and the next handle that
  \<^verbatim>\<open>setTimeout\<close> will return. The state is the one at the end of a run of code that
  does not suspend: React commits the updates that such a run has requested together.
\<close>

record world =
  token :: "string option"
  user :: "AuthUser option"
  refreshTimerRef :: "nat option"
  timers :: "(nat \<times> int) list"
  nextHandle :: nat
  audit :: logger

definition setTimeout :: "int \<Rightarrow> world \<Rightarrow> nat \<times> world" where
  "setTimeout delay w =
     (nextHandle w, w\<lparr>timers := timers w @ [(nextHandle w, delay)], nextHandle := Suc (nextHandle w)\<rparr>)"

text \<open>\<^verbatim>\<open>clearTimeout\<close> of a handle that is not armed (a timer that has fired) does
  nothing.\<close>

definition clearTimeout :: "nat \<Rightarrow> world \<Rightarrow> world" where
  "clearTimeout h w = w\<lparr>timers := filter (\<lambda>t. fst t \<noteq> h) (timers w)\<rparr>"

definition clearRefreshTimer :: "world \<Rightarrow> world" where
  "clearRefreshTimer w =
     (case refreshTimerRef w of
        None \<Rightarrow> w
      | Some h \<Rightarrow> (clearTimeout h w)\<lparr>refreshTimerRef := None\<rparr>)"

subsection \<open>\<^verbatim>\<open>applyToken\<close>\<close>

text \<open>\<^verbatim>\<open>Math.floor(Date.now() / 1000)\<close> is \<open>dateNow e div 1000\<close>. The callback of the
  timer is always \<^verbatim>\<open>silentRefresh\<close>, so a timer is its handle and its delay.\<close>

definition applyToken :: "env \<Rightarrow> string \<Rightarrow> world \<Rightarrow> world" where
  "applyToken e accessToken_arg w =
     (case decodeJwtPayload e accessToken_arg of
        None \<Rightarrow> w
      | Some payload \<Rightarrow>
          let w1 = w\<lparr>token := Some accessToken_arg\<rparr>;
              authUser = jwtToAuthUser payload;
              w2 = w1\<lparr>user := Some authUser\<rparr>;
              w3 = w2\<lparr>audit := setUser (Some (id' authUser)) (audit w2)\<rparr>;
              nowSeconds = dateNow e div 1000;
              secondsUntilRefresh = exp payload - nowSeconds - REFRESH_BUFFER_SECONDS;
              w4 = clearRefreshTimer w3
          in if secondsUntilRefresh > 0
             then (case setTimeout (secondsUntilRefresh * 1000) w4 of
                     (h, w5) \<Rightarrow> w5\<lparr>refreshTimerRef := Some h\<rparr>)
             else w4)"

subsection \<open>Requests, responses and suspended calls\<close>

record request =
  req_url :: string
  req_method :: string
  req_credentials :: string
  req_headers :: "(string \<times> string) list"
  req_body :: "(string \<times> string) list option"

text \<open>A response with its status and with what \<^verbatim>\<open>response.json()\<close> resolves to
  (\<open>None\<close>: it rejects; for the provider also: it resolves to \<^verbatim>\<open>null\<close>, whose
  property \<^verbatim>\<open>accessToken\<close> cannot be read, so that the next statement throws).
  \<^verbatim>\<open>response.ok\<close> is a status from 200 to 299.\<close>

record 'b response =
  status :: nat
  json :: "'b option"

definition ok :: "'b response \<Rightarrow> bool" where
  "ok r = (200 \<le> status r \<and> status r \<le> 299)"

datatype 'b fetch_result = Rejected | Resolved "'b response"

record LoginResponse =
  accessToken :: string

text \<open>What a promise of the provider rejects with: an \<^verbatim>\<open>Error\<close> with its message, the
  rejection of \<^verbatim>\<open>fetch\<close>, or the rejection of \<^verbatim>\<open>response.json()\<close>.\<close>

datatype thrown =
    Error string
  | FetchRejected
  | JsonRejected

text \<open>
  What a call of an \<^verbatim>\<open>async\<close> function of the provider has done when it hands control
  back to the event loop. \<open>Return w\<close> and \<open>Throw w x\<close>: its promise has settled, leaving
  the state \<open>w\<close>. \<open>AwaitFetch w req k\<close>: it has issued the request \<open>req\<close> and suspended,
  leaving the state \<open>w\<close>; when the request settles with \<open>res\<close> the function goes on as
  \<open>k e' res w'\<close>, on the platform values and the state of that later moment.
  Between \<^verbatim>\<open>await fetch(...)\<close> and \<^verbatim>\<open>await response.json()\<close> only \<^verbatim>\<open>response.ok\<close>
  is read, so the two suspensions are one. \<open>AwaitLogger w d k\<close>: it has suspended in the
  digest of an awaited logger call.
\<close>

datatype async =
    Return world
  | Throw world thrown
  | AwaitFetch world request "env \<Rightarrow> LoginResponse fetch_result \<Rightarrow> world \<Rightarrow> async"
  | AwaitLogger world "byte list" "env \<Rightarrow> 256 word \<Rightarrow> world \<Rightarrow> async"

text \<open>\<^verbatim>\<open>await auditLogger.m(...)\<close> followed by the statements \<open>k\<close>.\<close>

fun await_call :: "call \<Rightarrow> world \<Rightarrow> (world \<Rightarrow> async) \<Rightarrow> async" where
  "await_call (Sync q) w k = k (w\<lparr>audit := q\<rparr>)"
| "await_call (AwaitDigest q d r) w k =
     AwaitLogger (w\<lparr>audit := q\<rparr>) d (\<lambda>e h w'. k (w'\<lparr>audit := r e h (audit w')\<rparr>))"

definition auth_request :: "env \<Rightarrow> string \<Rightarrow> (string \<times> string) list option \<Rightarrow> request" where
  "auth_request e path b =
     \<lparr> req_url = API_BASE e @ path,
       req_method = ''POST'',
       req_credentials = ''include'',
       req_headers = [(''Content-Type'', ''application/json'')],
       req_body = b \<rparr>"

subsection \<open>\<^verbatim>\<open>silentRefresh\<close>\<close>

text \<open>The four statements of the \<^verbatim>\<open>else\<close> branch, which the \<^verbatim>\<open>catch\<close> block
  repeats.\<close>

definition clearSession :: "world \<Rightarrow> world" where
  "clearSession w =
     clearRefreshTimer (w\<lparr>token := None, user := None, audit := setUser None (audit w)\<rparr>)"

definition silentRefresh_then :: "env \<Rightarrow> LoginResponse fetch_result \<Rightarrow> world \<Rightarrow> async" where
  "silentRefresh_then e res w =
     (case res of
        Rejected \<Rightarrow> Return (clearSession w)
      | Resolved response \<Rightarrow>
          if ok response then
            (case json response of
               None \<Rightarrow> Return (clearSession w)
             | Some data \<Rightarrow>
                 let w1 = applyToken e (accessToken data) w in
                 Return (w1\<lparr>audit := on_return (logTokenRefresh e (audit w1))\<rparr>))
          else Return (clearSession w))"

definition silentRefresh :: "env \<Rightarrow> world \<Rightarrow> async" where
  "silentRefresh e w = AwaitFetch w (auth_request e ''/api/auth/refresh'' None) silentRefresh_then"

subsection \<open>\<^verbatim>\<open>login\<close>\<close>

definition login_then :: "string \<Rightarrow> env \<Rightarrow> LoginResponse fetch_result \<Rightarrow> world \<Rightarrow> async" where
  "login_then email_arg e res w =
     (case res of
        Rejected \<Rightarrow> Throw w FetchRejected
      | Resolved response \<Rightarrow>
          if \<not> ok response then
            await_call (logLoginFailed email_arg (audit w)) w
              (\<lambda>w'. Throw w' (Error ''Invalid email or password''))
          else
            (case json response of
               None \<Rightarrow> Throw w JsonRejected
             | Some data \<Rightarrow>
                 let w1 = applyToken e (accessToken data) w in
                 await_call (logLogin email_arg (audit w1)) w1 Return))"

definition login :: "env \<Rightarrow> string \<Rightarrow> string \<Rightarrow> world \<Rightarrow> async" where
  "login e email_arg password w =
     AwaitFetch w
       (auth_request e ''/api/auth/login'' (Some [(''email'', email_arg), (''password'', password)]))
       (login_then email_arg)"

subsection \<open>\<^verbatim>\<open>logout\<close>\<close>

text \<open>The \<^verbatim>\<open>catch\<close> block around the request is empty: whatever the request settles
  with, the four statements after it run.\<close>

definition logout_then :: "env \<Rightarrow> LoginResponse fetch_result \<Rightarrow> world \<Rightarrow> async" where
  "logout_then e res w =
     Return (w\<lparr>token := None, user := None,
               audit := resetSession e (setUser None (audit w))\<rparr>)"

definition logout :: "env \<Rightarrow> world \<Rightarrow> async" where
  "logout e w =
     (let w1 = w\<lparr>audit := on_return (logLogout e (audit w))\<rparr>;
          w2 = clearRefreshTimer w1
      in AwaitFetch w2 (auth_request e ''/api/auth/logout'' None) logout_then)"

subsection \<open>\<^verbatim>\<open>hasRole\<close> and \<^verbatim>\<open>isAuthenticated\<close>\<close>

definition hasRole :: "world \<Rightarrow> UserRole \<Rightarrow> bool" where
  "hasRole w r =
     (case user w of
        None \<Rightarrow> False
      | Some u \<Rightarrow>
          if r = viewer then True
          else if r = reviewer then role' u = reviewer \<or> role' u = admin
          else role' u = admin)"

definition isAuthenticated :: "world \<Rightarrow> bool" where
  "isAuthenticated w = (token w \<noteq> None \<and> user w \<noteq> None)"

section \<open>The event loop\<close>

text \<open>
  The provider runs on one thread. A configuration is the state together with the calls
  that are suspended; a step runs one piece of code from where it starts, or from where
  it was suspended, to its next suspension or to its end. Requests settle with any
  result and in any order; an armed timer may fire; other components may log events and
  the batch timer may flush the queue.
\<close>

datatype pending =
    PendingFetch "env \<Rightarrow> LoginResponse fetch_result \<Rightarrow> world \<Rightarrow> async"
  | PendingDigest "byte list" "env \<Rightarrow> 256 word \<Rightarrow> world \<Rightarrow> async"

fun suspend :: "async \<Rightarrow> pending list \<Rightarrow> world \<times> pending list" where
  "suspend (Return w) ps = (w, ps)"
| "suspend (Throw w x) ps = (w, ps)"
| "suspend (AwaitFetch w req k) ps = (w, ps @ [PendingFetch k])"
| "suspend (AwaitLogger w d k) ps = (w, ps @ [PendingDigest d k])"

text \<open>A timer that fires leaves the table of armed timers and calls
  \<^verbatim>\<open>silentRefresh\<close>; the ref keeps its handle.\<close>

definition fire :: "nat \<Rightarrow> world \<Rightarrow> world" where
  "fire h w = w\<lparr>timers := filter (\<lambda>t. fst t \<noteq> h) (timers w)\<rparr>"

inductive step :: "world \<times> pending list \<Rightarrow> world \<times> pending list \<Rightarrow> bool" where
  mount: "step (w, ps) (suspend (silentRefresh e w) ps)"
| unmount: "step (w, ps) (clearRefreshTimer w, ps)"
| timer_fires: "(h, d) \<in> set (timers w) \<Longrightarrow> step (w, ps) (suspend (silentRefresh e (fire h w)) ps)"
| call_login: "step (w, ps) (suspend (login e email_arg password w) ps)"
| call_logout: "step (w, ps) (suspend (logout e w) ps)"
| fetch_settles: "step (w, ps1 @ PendingFetch k # ps2) (suspend (k e res w) (ps1 @ ps2))"
| digest_settles: "step (w, ps1 @ PendingDigest d k # ps2) (suspend (k e (digest e d) w) (ps1 @ ps2))"
| review_logged: "step (w, ps) (w\<lparr>audit := on_return (logReviewSubmitted e movieId (audit w))\<rparr>, ps)"
| admin_logged: "step (w, ps) (w\<lparr>audit := on_return (logAdminPageAccess e page (audit w))\<rparr>, ps)"
| denial_logged: "step (w, ps) (w\<lparr>audit := on_return (logUnauthorizedAccess e path (audit w))\<rparr>, ps)"
| search_logged: "step (w, ps) (w\<lparr>audit := on_return (logSearch e term (audit w))\<rparr>, ps)"
| flushed: "step (w, ps) (w\<lparr>audit := snd (flushQueue (audit w))\<rparr>, ps)"

text \<open>The state before the provider has mounted: \<^verbatim>\<open>useState(null)\<close>,
  \<^verbatim>\<open>useRef(null)\<close>, no timer armed, and the logger module just loaded with the
  session identifier \<open>sid\<close>.\<close>

definition initial :: "string \<Rightarrow> world" where
  "initial sid =
     \<lparr> token = None, user = None, refreshTimerRef = None, timers = [], nextHandle = 0,
       audit = \<lparr> currentUserId = None, currentSessionId = sid, eventQueue = [] \<rparr> \<rparr>"

inductive reachable :: "world \<times> pending list \<Rightarrow> bool" where
  start: "reachable (initial sid, [])"
| later: "reachable c \<Longrightarrow> step c c' \<Longrightarrow> reachable c'"

section \<open>The API client\<close>

datatype json =
    JNull
  | JBool bool
  | JNumber int
  | JString string
  | JArray "json list"
  | JObject "(string \<times> json) list"

text \<open>
  What \<^verbatim>\<open>apiFetch\<close> reads: the build-time variable, the correlation identifier,
  \<^verbatim>\<open>document.cookie\<close>, the value that the injected \<^verbatim>\<open>getToken()\<close> returns, and the
  built-ins \<^verbatim>\<open>toUpperCase\<close> and \<^verbatim>\<open>decodeURIComponent\<close> (\<open>None\<close>: it throws).
\<close>

record api_env =
  base_url :: "string option"
  correlation :: string
  cookie :: string
  getToken :: "string option"
  toUpperCase :: "string \<Rightarrow> string"
  decodeURIComponent :: "string \<Rightarrow> string option"

record options =
  opt_method :: "string option"
  opt_headers :: "(string \<times> string) list"
  opt_body :: "string option"

record api_request =
  api_url :: string
  api_method :: string
  api_headers :: "(string \<times> string) list"
  api_credentials :: string
  api_body :: "string option"

text \<open>What the client does to the world outside: the timeout timer, the request, the
  injected handlers \<^verbatim>\<open>handleLogout\<close> and \<^verbatim>\<open>showErrorToast\<close>, and the assignment to
  \<^verbatim>\<open>window.location.href\<close>.\<close>

datatype effect =
    SetTimeout nat
  | ClearTimeout
  | Fetch api_request
  | HandleLogout
  | SetLocationHref string
  | ShowErrorToast string

text \<open>How the request settles: aborted by the timeout, failed, or answered.\<close>

datatype api_outcome = AbortError | NetworkError | Response "json response"

text \<open>What the promise of \<^verbatim>\<open>apiFetch\<close> rejects with: an \<^verbatim>\<open>Error\<close> with its message,
  an \<^verbatim>\<open>ApiError\<close> with its status and the value given as its message, the rejection
  of \<^verbatim>\<open>response.json()\<close>, the \<^verbatim>\<open>TypeError\<close> of a property read on \<^verbatim>\<open>null\<close>, and
  the \<^verbatim>\<open>URIError\<close> of \<^verbatim>\<open>decodeURIComponent\<close>.\<close>

datatype api_thrown =
    PlainError string
  | ApiErrorOf nat json
  | BodyRejected
  | PropertyOfNull
  | MalformedURI

text \<open>
  \<open>Rejects x\<close>: the call has thrown before it sent anything. \<open>Awaits pre req k\<close>: it has
  caused the effects \<open>pre\<close>, the last of which is the request \<open>req\<close>, and is suspended;
  when the request settles with \<open>out\<close> the call causes the effects \<open>fst (k out)\<close> and
  its promise settles with \<open>snd (k out)\<close> (\<open>Inl\<close>: rejected).
\<close>

datatype api_call =
    Rejects api_thrown
  | Awaits "effect list" api_request "api_outcome \<Rightarrow> effect list \<times> (api_thrown + json option)"

definition REQUEST_TIMEOUT_MS :: nat where
  "REQUEST_TIMEOUT_MS = 10000"

definition MUTATING_METHODS :: "string set" where
  "MUTATING_METHODS = {''POST'', ''PUT'', ''PATCH'', ''DELETE''}"

text \<open>Assignment to a property of an object: an existing key keeps its place.\<close>

fun assign :: "string \<Rightarrow> string \<Rightarrow> (string \<times> string) list \<Rightarrow> (string \<times> string) list" where
  "assign k v [] = [(k, v)]"
| "assign k v ((k', v') # kvs) = (if k = k' then (k, v) # kvs else (k', v') # assign k v kvs)"

definition startsWith :: "string \<Rightarrow> string \<Rightarrow> bool" where
  "startsWith s p = (take (length p) s = p)"

text \<open>\<^verbatim>\<open>match.split('=')[1] ?? ''\<close>\<close>

definition second_part :: "string \<Rightarrow> string" where
  "second_part m = (case split_str CHR ''='' m of p0 # p1 # ps \<Rightarrow> p1 | _ \<Rightarrow> [])"

definition getCsrfToken :: "api_env \<Rightarrow> api_thrown + string option" where
  "getCsrfToken a =
     (case find (\<lambda>c. startsWith c ''XSRF-TOKEN='') (map trim (split_str CHR '';'' (cookie a))) of
        None \<Rightarrow> Inr None
      | Some m \<Rightarrow>
          (case decodeURIComponent a (second_part m) of
             None \<Rightarrow> Inl MalformedURI
           | Some v \<Rightarrow> Inr (Some v)))"

text \<open>\<^verbatim>\<open>(body['message'] as string | undefined) ?? 'Request failed'\<close> on the parsed
  body, where \<^verbatim>\<open>{}\<close> stands in for a body that does not parse. The last of several
  equal keys of a JSON object is the one that \<^verbatim>\<open>JSON.parse\<close> keeps.\<close>

definition message_of :: "nat \<Rightarrow> json \<Rightarrow> api_thrown" where
  "message_of st b =
     (case b of
        JNull \<Rightarrow> PropertyOfNull
      | JObject kvs \<Rightarrow>
          ApiErrorOf st
            (case map_of (rev kvs) ''message'' of
               None \<Rightarrow> JString ''Request failed''
             | Some JNull \<Rightarrow> JString ''Request failed''
             | Some m \<Rightarrow> m)
      | _ \<Rightarrow> ApiErrorOf st (JString ''Request failed''))"

text \<open>The statements after the request has settled. Both \<^verbatim>\<open>catch\<close> and
  \<^verbatim>\<open>finally\<close> clear the timeout.\<close>

definition apiFetch_then :: "api_outcome \<Rightarrow> effect list \<times> (api_thrown + json option)" where
  "apiFetch_then out =
     (case out of
        AbortError \<Rightarrow>
          ([ClearTimeout, ClearTimeout], Inl (PlainError ''Request timed out. Please try again.''))
      | NetworkError \<Rightarrow>
          ([ClearTimeout, ClearTimeout], Inl (PlainError ''Network error. Please check your connection.''))
      | Response r \<Rightarrow>
          if status r = 401 then
            ([ClearTimeout, HandleLogout, SetLocationHref ''/login''],
             Inl (PlainError ''Session expired. Please log in again.''))
          else if status r = 403 then
            ([ClearTimeout, SetLocationHref ''/unauthorized''], Inl (PlainError ''Access denied.''))
          else if status r \<ge> 500 then
            ([ClearTimeout, ShowErrorToast ''Something went wrong. Please try again later.''],
             Inl (PlainError ''Server error.''))
          else if \<not> ok r then
            ([ClearTimeout],
             Inl (message_of (status r) (case json r of None \<Rightarrow> JObject [] | Some b \<Rightarrow> b)))
          else if status r = 204 then ([ClearTimeout], Inr None)
          else (case json r of
                  None \<Rightarrow> ([ClearTimeout], Inl BodyRejected)
                | Some b \<Rightarrow> ([ClearTimeout], Inr (Some b))))"

definition apiFetch :: "api_env \<Rightarrow> string \<Rightarrow> options \<Rightarrow> api_call" where
  "apiFetch a path opts =
     (let baseUrl = (case base_url a of None \<Rightarrow> ''http://localhost:8080'' | Some u \<Rightarrow> u);
          url = baseUrl @ path;
          method = toUpperCase a (case opt_method opts of None \<Rightarrow> ''GET'' | Some m \<Rightarrow> m);
          headers0 = fold (\<lambda>(k, v). assign k v) (opt_headers opts)
                       [(''Content-Type'', ''application/json''), (''X-Correlation-ID'', correlation a)];
          headers1 = (case getToken a of
                        None \<Rightarrow> headers0
                      | Some t \<Rightarrow> if t = [] then headers0
                                  else assign ''Authorization'' (''Bearer '' @ t) headers0);
          csrf = (if method \<in> MUTATING_METHODS then getCsrfToken a else Inr None)
      in case csrf of
           Inl x \<Rightarrow> Rejects x
         | Inr csrfToken \<Rightarrow>
             let headers2 = (case csrfToken of
                               None \<Rightarrow> headers1
                             | Some c \<Rightarrow> if c = [] then headers1 else assign ''X-XSRF-TOKEN'' c headers1);
                 req = \<lparr> api_url = url, api_method = method, api_headers = headers2,
                         api_credentials = ''include'', api_body = opt_body opts \<rparr>
             in Awaits [SetTimeout REQUEST_TIMEOUT_MS, Fetch req] req apiFetch_then)"

section \<open>Invariants of the session\<close>

text \<open>Token and user are set together; every armed timer is the one that the ref names,
  and there is at most one.\<close>

definition session_inv :: "world \<Rightarrow> bool" where
  "session_inv w = (token w = None \<longleftrightarrow> user w = None)"

definition timer_inv :: "world \<Rightarrow> bool" where
  "timer_inv w =
     ((\<forall>t \<in> set (timers w). refreshTimerRef w = Some (fst t) \<and> fst t < nextHandle w)
      \<and> length (timers w) \<le> 1)"

definition world_inv :: "world \<Rightarrow> bool" where
  "world_inv w = (session_inv w \<and> timer_inv w)"

text \<open>A suspended call keeps the invariant when the state it leaves satisfies it and so
  does every state that its continuations leave, whenever they are resumed in a state that
  satisfies it.\<close>

primrec keeps :: "async \<Rightarrow> bool" where
  "keeps (Return w) = world_inv w"
| "keeps (Throw w x) = world_inv w"
| "keeps (AwaitFetch w req k) = (world_inv w \<and> (\<forall>e res w'. world_inv w' \<longrightarrow> keeps (k e res w')))"
| "keeps (AwaitLogger w d k) = (world_inv w \<and> (\<forall>e h w'. world_inv w' \<longrightarrow> keeps (k e h w')))"

fun resumable :: "pending \<Rightarrow> bool" where
  "resumable (PendingFetch k) = (\<forall>e res w. world_inv w \<longrightarrow> keeps (k e res w))"
| "resumable (PendingDigest d k) = (\<forall>e h w. world_inv w \<longrightarrow> keeps (k e h w))"

definition config_inv :: "world \<times> pending list \<Rightarrow> bool" where
  "config_inv c = (world_inv (fst c) \<and> (\<forall>p \<in> set (snd c). resumable p))"

section \<open>The text of an event and a call run to its end\<close>

text \<open>The strings that an event carries, as \<^verbatim>\<open>JSON.stringify(event)\<close> shows them: the
  values of its string fields, the name of its action as \<^verbatim>\<open>types/audit.ts\<close> spells it,
  and the keys and string values of its metadata. A number in the metadata is rendered
  in decimal digits and adds no other character.\<close>

fun action_name :: "AuditAction \<Rightarrow> string" where
  "action_name Login = ''login''"
| "action_name LoginFailed = ''login_failed''"
| "action_name Logout = ''logout''"
| "action_name ReviewSubmitted = ''review_submitted''"
| "action_name AdminPageAccess = ''admin_page_access''"
| "action_name UnauthorizedAccessAttempt = ''unauthorized_access_attempt''"
| "action_name TokenRefresh = ''token_refresh''"
| "action_name SearchPerformed = ''search_performed''"

fun meta_strings :: "string \<times> meta_value \<Rightarrow> string list" where
  "meta_strings (k, MString s) = [k, s]"
| "meta_strings (k, MNumber n) = [k]"

definition event_strings :: "AuditEvent \<Rightarrow> string list" where
  "event_strings ev =
     [timestamp ev, sessionId ev, correlationId ev, action_name (action ev)]
     @ (case userId ev of None \<Rightarrow> [] | Some u \<Rightarrow> [u])
     @ (case target ev of None \<Rightarrow> [] | Some t \<Rightarrow> [t])
     @ concat (map meta_strings (metadata ev))"

text \<open>The event contains the text \<open>s\<close>: \<open>s\<close> occurs, as a run of consecutive characters,
  in one of its strings.\<close>

definition contains_text :: "AuditEvent \<Rightarrow> string \<Rightarrow> bool" where
  "contains_text ev s = list_ex (sublist s) (event_strings ev)"

text \<open>A call of the provider run to its end with nothing else running in between: its
  requests settle with \<open>res\<close>, its digests resolve with what \<open>digest e\<close> computes.\<close>

primrec complete :: "env \<Rightarrow> LoginResponse fetch_result \<Rightarrow> async \<Rightarrow> world \<times> thrown option" where
  "complete e res (Return w) = (w, None)"
| "complete e res (Throw w x) = (w, Some x)"
| "complete e res (AwaitFetch w req k) = complete e res (k e res w)"
| "complete e res (AwaitLogger w d k) = complete e res (k e (digest e d) w)"

section \<open>Example values\<close>

text \<open>
  Concrete inputs on which the theorems below are run. In the example platform the
  built-ins \<^verbatim>\<open>atob\<close> and \<^verbatim>\<open>JSON.parse\<close> are tables on the texts of the examples, the
  clock stands at 1000.5 seconds, and the digest is the all-zero digest that the test
  setup of the repository installs for \<^verbatim>\<open>crypto.subtle.digest\<close>.
\<close>

definition example_payload :: JwtPayload where
  "example_payload =
     \<lparr> sub = ''user-1'', email = ''alice@example.com'', role = reviewer,
       displayName = ''Alice'', exp = 4600, iat = 1000 \<rparr>"

definition later_payload :: JwtPayload where
  "later_payload =
     \<lparr> sub = ''user-1'', email = ''alice@example.com'', role = reviewer,
       displayName = ''Alice'', exp = 8200, iat = 4540 \<rparr>"

definition expiring_payload :: JwtPayload where
  "expiring_payload =
     \<lparr> sub = ''user-1'', email = ''alice@example.com'', role = reviewer,
       displayName = ''Alice'', exp = 1060, iat = 100 \<rparr>"

definition example_token :: string where
  "example_token = ''aGVhZGVy.cGF5bG9hZA.c2ln''"

definition later_token :: string where
  "later_token = ''aGVhZGVy.bGF0ZXI.c2ln''"

definition expiring_token :: string where
  "expiring_token = ''aGVhZGVy.ZXhwaXJpbmc.c2ln''"

definition example_env :: env where
  "example_env =
     \<lparr> dateNow = 1000500,
       toISOString = ''1970-01-01T00:16:40.500Z'',
       getCorrelationId = ''c0ffee'',
       randomUUID = ''uuid-1'',
       VITE_API_BASE_URL = None,
       atob = map_of [(''cGF5bG9hZA'', ''payload''), (''bGF0ZXI'', ''later''),
                      (''ZXhwaXJpbmc'', ''expiring''), (''bnVsbA'', ''null''),
                      (''bm90IGpzb24'', ''not json'')],
       JSON_parse = map_of [(''payload'', Some example_payload), (''later'', Some later_payload),
                            (''expiring'', Some expiring_payload), (''null'', None)],
       digest = (\<lambda>d. 0) \<rparr>"

definition example_response :: "LoginResponse response" where
  "example_response = \<lparr> status = 200, json = Some \<lparr> accessToken = example_token \<rparr> \<rparr>"

text \<open>The session after the provider has mounted and the refresh on mount has been
  answered with \<open>example_response\<close>.\<close>

definition example_session :: world where
  "example_session =
     fst (suspend (silentRefresh_then example_env (Resolved example_response) (initial ''session-0'')) [])"

definition example_api_env :: api_env where
  "example_api_env =
     \<lparr> base_url = None, correlation = ''c0ffee'', cookie = ''theme=dark; XSRF-TOKEN=abc123'',
       getToken = Some example_token, toUpperCase = (\<lambda>m. m), decodeURIComponent = Some \<rparr>"

text \<open>
  A second example platform, for the logger: its digest is not constant (it reads the
  bytes as one number, the first byte the most significant), and it knows a token whose
  subject is the email address of the user.
\<close>

definition echo_digest :: "byte list \<Rightarrow> 256 word" where
  "echo_digest d = word_of_int (foldl (\<lambda>a b. a * 256 + uint b) 0 d)"

definition subject_payload :: JwtPayload where
  "subject_payload =
     \<lparr> sub = ''alice@example.com'', email = ''alice@example.com'', role = viewer,
       displayName = ''Alice'', exp = 4600, iat = 1000 \<rparr>"

definition subject_token :: string where
  "subject_token = ''aGVhZGVy.c3ViamVjdA.c2ln''"

definition echo_env :: env where
  "echo_env =
     example_env
       \<lparr> atob := map_of [(''c3ViamVjdA'', ''subject'')],
         JSON_parse := map_of [(''subject'', Some subject_payload)],
         digest := echo_digest \<rparr>"

section \<open>The invariants hold in every reachable configuration\<close>

lemma clearRefreshTimer_timers:
  "timer_inv w \<Longrightarrow> timers (clearRefreshTimer w) = [] \<and> refreshTimerRef (clearRefreshTimer w) = None"
  by (cases "timers w")
     (auto simp: timer_inv_def clearRefreshTimer_def clearTimeout_def split: option.splits)

lemma clearRefreshTimer_fields:
  "token (clearRefreshTimer w) = token w" "user (clearRefreshTimer w) = user w"
  "audit (clearRefreshTimer w) = audit w" "nextHandle (clearRefreshTimer w) = nextHandle w"
  by (auto simp: clearRefreshTimer_def clearTimeout_def split: option.splits)

lemma inv_clearRefreshTimer: "world_inv w \<Longrightarrow> world_inv (clearRefreshTimer w)"
  using clearRefreshTimer_timers [of w]
  by (simp add: world_inv_def session_inv_def clearRefreshTimer_fields) (simp add: timer_inv_def)

lemma inv_audit_update: "world_inv (w\<lparr>audit := q\<rparr>) = world_inv w"
  by (simp add: world_inv_def session_inv_def timer_inv_def)

lemma inv_clearSession: "world_inv w \<Longrightarrow> world_inv (clearSession w)"
  using clearRefreshTimer_timers [of "w\<lparr>token := None, user := None, audit := setUser None (audit w)\<rparr>"]
  by (simp add: world_inv_def session_inv_def clearSession_def clearRefreshTimer_fields timer_inv_def)

lemma clearRefreshTimer_eq:
  "timer_inv w \<Longrightarrow> clearRefreshTimer w = w\<lparr>refreshTimerRef := None, timers := []\<rparr>"
  by (cases "timers w")
     (auto simp: timer_inv_def clearRefreshTimer_def clearTimeout_def split: option.splits)

lemma timer_inv_updates:
  "timer_inv (w\<lparr>token := a\<rparr>) = timer_inv w"
  "timer_inv (w\<lparr>user := b\<rparr>) = timer_inv w"
  "timer_inv (w\<lparr>audit := c\<rparr>) = timer_inv w"
  by (simp_all add: timer_inv_def)

lemma applyToken_None: "decodeJwtPayload e t = None \<Longrightarrow> applyToken e t w = w"
  by (simp add: applyToken_def)

lemma applyToken_Some:
  assumes "decodeJwtPayload e t = Some p" and "timer_inv w"
  shows "applyToken e t w =
           (if exp p - dateNow e div 1000 - 60 > 0
            then w\<lparr>token := Some t, user := Some (jwtToAuthUser p),
                   audit := setUser (Some (sub p)) (audit w),
                   timers := [(nextHandle w, (exp p - dateNow e div 1000 - 60) * 1000)],
                   nextHandle := Suc (nextHandle w),
                   refreshTimerRef := Some (nextHandle w)\<rparr>
            else w\<lparr>token := Some t, user := Some (jwtToAuthUser p),
                   audit := setUser (Some (sub p)) (audit w),
                   refreshTimerRef := None, timers := []\<rparr>)"
  using assms
  by (simp add: applyToken_def Let_def clearRefreshTimer_eq timer_inv_updates setTimeout_def
      REFRESH_BUFFER_SECONDS_def jwtToAuthUser_def)

lemma inv_applyToken: "world_inv w \<Longrightarrow> world_inv (applyToken e t w)"
  by (cases "decodeJwtPayload e t")
     (auto simp: applyToken_None applyToken_Some world_inv_def session_inv_def timer_inv_def)

lemma inv_fire: "world_inv w \<Longrightarrow> world_inv (fire h w)"
  by (cases "timers w") (auto simp: world_inv_def session_inv_def timer_inv_def fire_def)

lemma inv_initial: "world_inv (initial sid)"
  by (simp add: world_inv_def session_inv_def timer_inv_def initial_def)

lemma keeps_silentRefresh_then: "world_inv w \<Longrightarrow> keeps (silentRefresh_then e res w)"
  by (auto simp: silentRefresh_then_def Let_def inv_clearSession inv_applyToken inv_audit_update
      split: fetch_result.splits option.splits)

lemma keeps_silentRefresh: "world_inv w \<Longrightarrow> keeps (silentRefresh e w)"
  by (simp add: silentRefresh_def keeps_silentRefresh_then)

lemma keeps_login_then: "world_inv w \<Longrightarrow> keeps (login_then em e res w)"
  by (auto simp: login_then_def Let_def logLoginFailed_def logLogin_def inv_applyToken inv_audit_update
      split: fetch_result.splits option.splits)

lemma keeps_login: "world_inv w \<Longrightarrow> keeps (login e em pw w)"
  by (simp add: login_def keeps_login_then)

lemma keeps_logout_then: "world_inv w \<Longrightarrow> keeps (logout_then e res w)"
  by (simp add: logout_then_def world_inv_def session_inv_def timer_inv_def)

lemma keeps_logout: "world_inv w \<Longrightarrow> keeps (logout e w)"
  by (simp add: logout_def Let_def inv_clearRefreshTimer inv_audit_update keeps_logout_then)

lemma config_inv_suspend:
  "keeps a \<Longrightarrow> \<forall>p \<in> set ps. resumable p \<Longrightarrow> config_inv (suspend a ps)"
  by (cases a) (auto simp: config_inv_def)

lemma config_inv_step: "step c c' \<Longrightarrow> config_inv c \<Longrightarrow> config_inv c'"
proof (induction rule: step.induct)
  case (fetch_settles w ps1 k ps2 e res)
  then show ?case by (intro config_inv_suspend) (auto simp: config_inv_def)
next
  case (digest_settles w ps1 d k ps2 e)
  then show ?case by (intro config_inv_suspend) (auto simp: config_inv_def)
qed (auto simp: config_inv_def intro!: config_inv_suspend [unfolded config_inv_def]
       keeps_silentRefresh keeps_login keeps_logout inv_fire inv_clearRefreshTimer
       simp: inv_audit_update)

lemma reachable_config_inv: "reachable c \<Longrightarrow> config_inv c"
proof (induction rule: reachable.induct)
  case (start sid)
  show ?case by (simp add: config_inv_def inv_initial)
next
  case (later c c')
  then show ?case by (blast intro: config_inv_step)
qed

lemma reachable_inv: "reachable (w, ps) \<Longrightarrow> world_inv w"
  using reachable_config_inv [of "(w, ps)"] by (simp add: config_inv_def)

section \<open>The example session\<close>

lemma example_decodes:
  "decodeJwtPayload example_env example_token = Some example_payload"
  "decodeJwtPayload example_env later_token = Some later_payload"
  "decodeJwtPayload example_env expiring_token = Some expiring_payload"
  by (simp_all add: decodeJwtPayload_def example_env_def example_token_def later_token_def
      expiring_token_def replace_all_def)

lemma initial_timer_inv: "timer_inv (initial sid)"
  by (simp add: timer_inv_def initial_def)

lemma example_session_eq:
  "silentRefresh_then example_env (Resolved example_response) (initial ''session-0'') = Return example_session"
  by (simp add: example_session_def silentRefresh_then_def example_response_def ok_def Let_def
      logTokenRefresh_def)

lemma example_session_reachable: "reachable (example_session, [])"
proof -
  have "reachable (initial ''session-0'', [])" by (rule reachable.start)
  moreover have "step (initial ''session-0'', [])
                      (suspend (silentRefresh example_env (initial ''session-0'')) [])"
    by (rule step.mount)
  ultimately have "reachable (initial ''session-0'', [PendingFetch silentRefresh_then])"
    by (auto simp: silentRefresh_def dest: reachable.later)
  moreover have "step (initial ''session-0'', [] @ PendingFetch silentRefresh_then # [])
      (suspend (silentRefresh_then example_env (Resolved example_response) (initial ''session-0'')) ([] @ []))"
    by (rule step.fetch_settles)
  ultimately show ?thesis
    by (auto simp: example_session_eq dest: reachable.later)
qed

lemma example_clock: "dateNow example_env = 1000500"
  by (simp add: example_env_def)

lemma example_session_fields:
  "token example_session = Some example_token"
  "user example_session = Some (jwtToAuthUser example_payload)"
  "timers example_session = [(0, 3540000)]"
  "refreshTimerRef example_session = Some 0"
  "nextHandle example_session = 1"
proof -
  have "nextHandle (initial ''session-0'') = 0" by (simp add: initial_def)
  then show "token example_session = Some example_token"
    "user example_session = Some (jwtToAuthUser example_payload)"
    "timers example_session = [(0, 3540000)]"
    "refreshTimerRef example_session = Some 0"
    "nextHandle example_session = 1"
    by (simp_all add: example_session_def silentRefresh_then_def example_response_def ok_def Let_def
        logTokenRefresh_def applyToken_Some [OF example_decodes(1) initial_timer_inv]
        example_payload_def example_clock)
qed

section \<open>The refresh timer\<close>

lemma ms_seconds:
  fixes x n :: int
  shows "(x * 1000 - n > 60000) = (x - n div 1000 - 60 > 0)"
proof -
  define q where "q = n div 1000"
  define r where "r = n mod 1000"
  have n: "n = 1000 * q + r"
    by (simp add: q_def r_def)
  have r: "0 \<le> r" "r < 1000"
    by (simp_all add: r_def)
  have "(x * 1000 - n > 60000) = (x - q - 60 > 0)"
    using n r by linarith
  then show ?thesis
    by (simp add: q_def)
qed

text \<open>
  Claim C1. Let a token that decodes be applied in a reachable state. If its expiry lies
  more than 60 seconds after the current time, \<^verbatim>\<open>applyToken\<close> leaves exactly one armed
  timer, the one that the ref names, with a delay of expiry minus now minus 60 seconds,
  where now is the clock in whole seconds as the code reads it
  (\<^verbatim>\<open>Math.floor(Date.now() / 1000)\<close>) and the delay is handed to \<^verbatim>\<open>setTimeout\<close> in
  milliseconds. If expiry minus now minus 60 is zero or less, no timer is armed. In both
  cases every timer that was armed before is cancelled, and in every reachable state at
  most one timer is armed.
\<close>

theorem refresh_timer_armed:
  assumes "reachable (w, ps)" and "decodeJwtPayload e t = Some p"
  shows "length (timers w) \<le> 1
       \<and> length (timers (applyToken e t w)) \<le> 1
       \<and> set (timers w) \<inter> set (timers (applyToken e t w)) = {}
       \<and> (exp p * 1000 - dateNow e > 60000 \<longrightarrow>
            timers (applyToken e t w) = [(nextHandle w, (exp p - dateNow e div 1000 - 60) * 1000)]
            \<and> refreshTimerRef (applyToken e t w) = Some (nextHandle w))
       \<and> (exp p - dateNow e div 1000 - 60 \<le> 0 \<longrightarrow>
            timers (applyToken e t w) = [] \<and> refreshTimerRef (applyToken e t w) = None)"
proof -
  from assms(1) have ti: "timer_inv w"
    using reachable_inv by (auto simp: world_inv_def)
  have fresh: "\<forall>old \<in> set (timers w). fst old < nextHandle w"
    using ti by (simp add: timer_inv_def)
  have one: "length (timers w) \<le> 1"
    using ti by (simp add: timer_inv_def)
  show ?thesis
    using fresh one by (auto simp: applyToken_Some [OF assms(2) ti] ms_seconds)
qed

theorem refresh_timer_armed_witness:
  "timers example_session = [(0, 3540000)]
   \<and> timers (applyToken example_env later_token example_session) = [(1, 7140000)]
   \<and> refreshTimerRef (applyToken example_env later_token example_session) = Some 1
   \<and> timers (applyToken example_env expiring_token example_session) = []"
proof -
  have later: "exp later_payload = 8200" "exp expiring_payload = 1060"
    by (simp_all add: later_payload_def expiring_payload_def)
  note a = refresh_timer_armed [OF example_session_reachable example_decodes(2)]
  note b = refresh_timer_armed [OF example_session_reachable example_decodes(3)]
  show ?thesis using a b by (auto simp: later example_clock example_session_fields)
qed

section \<open>Token and user\<close>

lemma applyToken_token:
  "token (applyToken e t w) = (case decodeJwtPayload e t of None \<Rightarrow> token w | Some p \<Rightarrow> Some t)"
  by (simp add: applyToken_def Let_def setTimeout_def clearRefreshTimer_fields split: option.splits prod.splits)

lemma applyToken_user:
  "user (applyToken e t w) =
     (case decodeJwtPayload e t of None \<Rightarrow> user w | Some p \<Rightarrow> Some (jwtToAuthUser p))"
  by (simp add: applyToken_def Let_def setTimeout_def clearRefreshTimer_fields split: option.splits prod.splits)

lemma applyToken_audit:
  "audit (applyToken e t w) =
     (case decodeJwtPayload e t of None \<Rightarrow> audit w | Some p \<Rightarrow> setUser (Some (sub p)) (audit w))"
  by (simp add: applyToken_def Let_def setTimeout_def clearRefreshTimer_fields jwtToAuthUser_def
      split: option.splits prod.splits)

lemma reachable_session_inv: "reachable (w, ps) \<Longrightarrow> (token w = None) = (user w = None)"
  using reachable_inv [of w ps] by (simp add: world_inv_def session_inv_def)

text \<open>
  Claim C2. In every reachable configuration the token is set exactly when the user is
  set, and \<^verbatim>\<open>isAuthenticated\<close> reports just that. Every operation on the session treats
  the two alike: \<^verbatim>\<open>applyToken\<close> sets both, or leaves both as they were when the token
  does not decode; a refresh that fails (the request rejects, the response is not OK, or
  its body does not parse) clears both; a refresh that succeeds leaves them as
  \<^verbatim>\<open>applyToken\<close> does; \<^verbatim>\<open>logout\<close> touches neither before it suspends at its request
  and clears both after it.
\<close>

theorem token_and_user_together:
  "(reachable (w, ps) \<longrightarrow>
      (token w \<noteq> None \<longleftrightarrow> user w \<noteq> None)
      \<and> (isAuthenticated w \<longleftrightarrow> token w \<noteq> None)
      \<and> (isAuthenticated w \<longleftrightarrow> user w \<noteq> None))
   \<and> (case decodeJwtPayload e t of
         None \<Rightarrow> token (applyToken e t w) = token w \<and> user (applyToken e t w) = user w
       | Some p \<Rightarrow> token (applyToken e t w) = Some t \<and> user (applyToken e t w) = Some (jwtToAuthUser p))
   \<and> (res = Rejected \<or> (\<exists>r. res = Resolved r \<and> (\<not> ok r \<or> json r = None)) \<longrightarrow>
        (\<exists>w'. silentRefresh_then e res w = Return w' \<and> token w' = None \<and> user w' = None))
   \<and> (\<forall>r d. res = Resolved r \<and> ok r \<and> json r = Some d \<longrightarrow>
        (\<exists>w'. silentRefresh_then e res w = Return w'
              \<and> token w' = token (applyToken e (accessToken d) w)
              \<and> user w' = user (applyToken e (accessToken d) w)))
   \<and> (\<exists>w1 req. logout e w = AwaitFetch w1 req logout_then \<and> token w1 = token w \<and> user w1 = user w)
   \<and> (\<exists>w'. logout_then e res w = Return w' \<and> token w' = None \<and> user w' = None)"
proof -
  have a: "reachable (w, ps) \<longrightarrow>
      (token w \<noteq> None \<longleftrightarrow> user w \<noteq> None)
      \<and> (isAuthenticated w \<longleftrightarrow> token w \<noteq> None)
      \<and> (isAuthenticated w \<longleftrightarrow> user w \<noteq> None)"
    using reachable_session_inv [of w ps] by (auto simp: isAuthenticated_def)
  have b: "case decodeJwtPayload e t of
         None \<Rightarrow> token (applyToken e t w) = token w \<and> user (applyToken e t w) = user w
       | Some p \<Rightarrow> token (applyToken e t w) = Some t \<and> user (applyToken e t w) = Some (jwtToAuthUser p)"
    by (simp add: applyToken_token applyToken_user split: option.splits)
  have c: "res = Rejected \<or> (\<exists>r. res = Resolved r \<and> (\<not> ok r \<or> json r = None)) \<longrightarrow>
        (\<exists>w'. silentRefresh_then e res w = Return w' \<and> token w' = None \<and> user w' = None)"
    by (auto simp: silentRefresh_then_def clearSession_def clearRefreshTimer_fields)
  have d: "\<forall>r d. res = Resolved r \<and> ok r \<and> json r = Some d \<longrightarrow>
        (\<exists>w'. silentRefresh_then e res w = Return w'
              \<and> token w' = token (applyToken e (accessToken d) w)
              \<and> user w' = user (applyToken e (accessToken d) w))"
    by (auto simp: silentRefresh_then_def Let_def)
  have f: "\<exists>w1 req. logout e w = AwaitFetch w1 req logout_then \<and> token w1 = token w \<and> user w1 = user w"
    by (simp add: logout_def Let_def clearRefreshTimer_fields)
  have g: "\<exists>w'. logout_then e res w = Return w' \<and> token w' = None \<and> user w' = None"
    by (simp add: logout_then_def)
  from a b c d f g show ?thesis by blast
qed

theorem token_and_user_together_witness:
  "token example_session = Some example_token
   \<and> user example_session \<noteq> None
   \<and> isAuthenticated example_session
   \<and> user (applyToken example_env later_token example_session) = Some (jwtToAuthUser later_payload)
   \<and> (\<exists>w'. silentRefresh_then example_env Rejected example_session = Return w'
            \<and> token w' = None \<and> user w' = None)"
  using token_and_user_together
          [of example_session "[]" example_env later_token Rejected]
        example_session_reachable
  by (simp add: example_session_fields example_decodes)

section \<open>Logout\<close>

lemma reachable_timer_inv: "reachable (w, ps) \<Longrightarrow> timer_inv w"
  using reachable_inv [of w ps] by (simp add: world_inv_def)

text \<open>
  Claim C3. From any reachable state \<^verbatim>\<open>logout\<close> queues the logout event, cancels the
  refresh timer and only then suspends at the request to the logout endpoint: in the state
  it leaves at that moment no timer is armed. Whatever that request settles with, and
  whatever has happened to the state in the meantime, the rest of \<^verbatim>\<open>logout\<close> returns
  with token and user cleared, the logger's user cleared and the logger's session
  identifier replaced by a new \<^verbatim>\<open>crypto.randomUUID()\<close>.
\<close>

theorem logout_always_clears:
  assumes "reachable (w, ps)"
  shows "\<exists>w1. logout e w = AwaitFetch w1 (auth_request e ''/api/auth/logout'' None) logout_then
              \<and> timers w1 = [] \<and> refreshTimerRef w1 = None
              \<and> eventQueue (audit w1) = eventQueue (audit w) @ [buildEvent e (audit w) Logout None []]
              \<and> (\<forall>e' res w'. \<exists>w2. logout_then e' res w' = Return w2
                     \<and> token w2 = None \<and> user w2 = None
                     \<and> currentUserId (audit w2) = None
                     \<and> currentSessionId (audit w2) = randomUUID e')"
proof -
  let ?w0 = "w\<lparr>audit := on_return (logLogout e (audit w))\<rparr>"
  have ti: "timer_inv ?w0"
    using reachable_timer_inv [OF assms] by (simp add: timer_inv_updates)
  have "logout e w = AwaitFetch (clearRefreshTimer ?w0) (auth_request e ''/api/auth/logout'' None) logout_then"
    by (simp add: logout_def Let_def)
  moreover have "timers (clearRefreshTimer ?w0) = []" "refreshTimerRef (clearRefreshTimer ?w0) = None"
    using clearRefreshTimer_timers [OF ti] by simp_all
  moreover have "eventQueue (audit (clearRefreshTimer ?w0))
                   = eventQueue (audit w) @ [buildEvent e (audit w) Logout None []]"
    by (simp add: clearRefreshTimer_fields logLogout_def push_def)
  moreover have "\<forall>e' res w'. \<exists>w2. logout_then e' res w' = Return w2
                     \<and> token w2 = None \<and> user w2 = None
                     \<and> currentUserId (audit w2) = None
                     \<and> currentSessionId (audit w2) = randomUUID e'"
    by (simp add: logout_then_def resetSession_def setUser_def)
  ultimately show ?thesis by blast
qed

theorem logout_always_clears_witness:
  "\<exists>w1. logout example_env example_session
            = AwaitFetch w1 (auth_request example_env ''/api/auth/logout'' None) logout_then
         \<and> timers example_session = [(0, 3540000)]
         \<and> timers w1 = []
         \<and> (\<exists>w2. logout_then example_env Rejected w1 = Return w2
                \<and> token w2 = None \<and> user w2 = None \<and> currentSessionId (audit w2) = ''uuid-1'')"
proof -
  have u: "randomUUID example_env = ''uuid-1''" by (simp add: example_env_def)
  from logout_always_clears [OF example_session_reachable, of example_env]
  obtain w1 where w1: "logout example_env example_session
            = AwaitFetch w1 (auth_request example_env ''/api/auth/logout'' None) logout_then"
    "timers w1 = []"
    "\<forall>e' res w'. \<exists>w2. logout_then e' res w' = Return w2
                     \<and> token w2 = None \<and> user w2 = None
                     \<and> currentUserId (audit w2) = None
                     \<and> currentSessionId (audit w2) = randomUUID e'"
    by blast
  from w1(3) obtain w2 where "logout_then example_env Rejected w1 = Return w2
       \<and> token w2 = None \<and> user w2 = None \<and> currentSessionId (audit w2) = randomUUID example_env"
    by blast
  with w1(1,2) u show ?thesis by (auto simp: example_session_fields)
qed

section \<open>Malformed tokens\<close>

text \<open>
  Claim C4. A token that does not split into three parts at the dots, or whose second
  part \<^verbatim>\<open>atob\<close> rejects, or whose decoded second part \<^verbatim>\<open>JSON.parse\<close> rejects, leaves
  the whole state as it was under \<^verbatim>\<open>applyToken\<close>: token, user, the ref and the armed
  timers, and the logger with its current user.
\<close>

theorem malformed_token_ignored:
  assumes "length (split_str CHR ''.'' t) \<noteq> 3
           \<or> (case atob e (replace_all CHR ''_'' CHR ''/''
                             (replace_all CHR ''-'' CHR ''+'' (split_str CHR ''.'' t ! 1))) of
                None \<Rightarrow> True
              | Some json_text \<Rightarrow> JSON_parse e json_text = None)"
  shows "applyToken e t w = w"
proof -
  from assms have "decodeJwtPayload e t = None"
    by (auto simp: decodeJwtPayload_def Let_def split: option.splits)
  then show ?thesis by (rule applyToken_None)
qed

theorem malformed_token_ignored_witness:
  "applyToken example_env ''not-a-token'' example_session = example_session
   \<and> applyToken example_env ''aGVhZGVy.!!!.c2ln'' example_session = example_session
   \<and> applyToken example_env ''aGVhZGVy.bm90IGpzb24.c2ln'' example_session = example_session"
proof -
  have "applyToken example_env ''not-a-token'' example_session = example_session"
    by (rule malformed_token_ignored) simp
  moreover have "applyToken example_env ''aGVhZGVy.!!!.c2ln'' example_session = example_session"
    by (rule malformed_token_ignored) (simp add: example_env_def replace_all_def)
  moreover have "applyToken example_env ''aGVhZGVy.bm90IGpzb24.c2ln'' example_session = example_session"
    by (rule malformed_token_ignored) (simp add: example_env_def replace_all_def)
  ultimately show ?thesis by simp
qed

section \<open>Roles\<close>

text \<open>
  Claim C5. \<^verbatim>\<open>hasRole\<close> is false for every role when there is no user, which in a
  reachable state is the same as not being authenticated. When the session is
  authenticated, \<^verbatim>\<open>viewer\<close> is granted whatever the role of the user, \<^verbatim>\<open>reviewer\<close>
  exactly to the roles \<^verbatim>\<open>reviewer\<close> and \<^verbatim>\<open>admin\<close>, and \<^verbatim>\<open>admin\<close> exactly to the role
  \<^verbatim>\<open>admin\<close>.
\<close>

theorem hasRole_by_role:
  "(reachable (w, ps) \<and> \<not> isAuthenticated w \<longrightarrow> \<not> hasRole w r)
   \<and> (user w = None \<longrightarrow> \<not> hasRole w r)
   \<and> (isAuthenticated w \<longrightarrow>
        (\<exists>u. user w = Some u
           \<and> hasRole w viewer
           \<and> (hasRole w reviewer \<longleftrightarrow> role' u = reviewer \<or> role' u = admin)
           \<and> (hasRole w admin \<longleftrightarrow> role' u = admin)))"
  using reachable_session_inv [of w ps]
  by (auto simp: hasRole_def isAuthenticated_def)

theorem hasRole_by_role_witness:
  "isAuthenticated example_session
   \<and> hasRole example_session viewer
   \<and> hasRole example_session reviewer
   \<and> \<not> hasRole example_session admin
   \<and> \<not> hasRole (initial ''session-0'') viewer"
proof -
  have a: "isAuthenticated example_session"
    by (simp add: isAuthenticated_def example_session_fields)
  have b: "role' (jwtToAuthUser example_payload) = reviewer"
    by (simp add: jwtToAuthUser_def example_payload_def)
  have c: "user (initial ''session-0'') = None"
    by (simp add: initial_def)
  from hasRole_by_role [of example_session "[]" viewer] a b
       hasRole_by_role [of "initial ''session-0''" "[]" viewer] c
  show ?thesis by (auto simp: example_session_fields)
qed

section \<open>A refresh whose token does not decode\<close>

text \<open>
  Claim C10. When the refresh request is answered with an OK response whose body parses
  and whose \<^verbatim>\<open>accessToken\<close> does not decode, \<^verbatim>\<open>silentRefresh\<close> returns with token,
  user, timer and the logger's current user as they were, authenticated or not, and with
  one \<^verbatim>\<open>token_refresh\<close> event added to the queue.
\<close>

theorem undecodable_refresh_is_logged:
  assumes "ok r" and "json r = Some d" and "decodeJwtPayload e (accessToken d) = None"
  shows "\<exists>w'. silentRefresh_then e (Resolved r) w = Return w'
           \<and> token w' = token w \<and> user w' = user w
           \<and> isAuthenticated w' = isAuthenticated w
           \<and> timers w' = timers w \<and> refreshTimerRef w' = refreshTimerRef w
           \<and> currentUserId (audit w') = currentUserId (audit w)
           \<and> eventQueue (audit w')
               = eventQueue (audit w) @ [buildEvent e (audit w) TokenRefresh None []]
           \<and> action (buildEvent e (audit w) TokenRefresh None []) = TokenRefresh"
  using assms
  by (simp add: silentRefresh_then_def Let_def applyToken_None logTokenRefresh_def push_def
      isAuthenticated_def buildEvent_def)

theorem undecodable_refresh_is_logged_witness:
  "\<exists>w'. silentRefresh_then example_env
            (Resolved \<lparr>status = 200, json = Some \<lparr>accessToken = ''aGVhZGVy.bm90IGpzb24.c2ln''\<rparr>\<rparr>)
            (initial ''session-0'') = Return w'
        \<and> token w' = None \<and> user w' = None
        \<and> map action (eventQueue (audit w')) = [TokenRefresh]"
proof -
  have "decodeJwtPayload example_env ''aGVhZGVy.bm90IGpzb24.c2ln'' = None"
    by (simp add: decodeJwtPayload_def example_env_def replace_all_def)
  then have "decodeJwtPayload example_env (accessToken \<lparr>accessToken = ''aGVhZGVy.bm90IGpzb24.c2ln''\<rparr>) = None"
    by simp
  from undecodable_refresh_is_logged [OF _ _ this,
      of "\<lparr>status = 200, json = Some \<lparr>accessToken = ''aGVhZGVy.bm90IGpzb24.c2ln''\<rparr>\<rparr>"
         "initial ''session-0''"]
  show ?thesis by (auto simp: ok_def initial_def)
qed

section \<open>The digest of the email\<close>








lemma normalised_example: "trim (toLowerCase ''  User@Example.COM '') = ''user@example.com''"
  by code_simp




section \<open>A login that is refused\<close>



section \<open>Enqueue operations\<close>

text \<open>
  Claim C9, as stated, fails for \<^verbatim>\<open>logLogin\<close> and \<^verbatim>\<open>logLoginFailed\<close>: they are
  \<^verbatim>\<open>async\<close> functions that await the digest before they push, so the call returns
  with the queue untouched.
\<close>

theorem logLogin_is_not_synchronous:
  "\<not> synchronous (logLogin ''user@example.com'' (audit (initial ''session-0'')))
   \<and> eventQueue (on_return (logLogin ''user@example.com'' (audit (initial ''session-0'')))) = []"
  by (simp add: logLogin_def initial_def)

text \<open>
  Claim C9, amended. The six operations \<^verbatim>\<open>logLogout\<close>, \<^verbatim>\<open>logReviewSubmitted\<close>,
  \<^verbatim>\<open>logAdminPageAccess\<close>, \<^verbatim>\<open>logUnauthorizedAccess\<close>, \<^verbatim>\<open>logTokenRefresh\<close> and
  \<^verbatim>\<open>logSearch\<close> complete synchronously; \<^verbatim>\<open>logLogin\<close> and \<^verbatim>\<open>logLoginFailed\<close> return
  suspended, with the logger untouched, and complete when the digest has resolved. None
  of the eight throws, and each adds exactly one event at the end of the queue as it is
  when the operation completes, leaving the events before it, the current user and the
  session identifier as they were.
\<close>

theorem enqueue_appends_one_event:
  "(\<forall>c \<in> {logLogout e q, logReviewSubmitted e x q, logAdminPageAccess e x q,
            logUnauthorizedAccess e x q, logTokenRefresh e q, logSearch e x q}.
      synchronous c
      \<and> (\<exists>ev. eventQueue (on_return c) = eventQueue q @ [ev])
      \<and> currentUserId (on_return c) = currentUserId q
      \<and> currentSessionId (on_return c) = currentSessionId q)
   \<and> (\<forall>c \<in> {logLogin x q, logLoginFailed x q}.
      \<not> synchronous c
      \<and> on_return c = q
      \<and> (\<exists>d k. c = AwaitDigest q d k
            \<and> (\<forall>e' h q'. (\<exists>ev. eventQueue (k e' h q') = eventQueue q' @ [ev])
                  \<and> currentUserId (k e' h q') = currentUserId q'
                  \<and> currentSessionId (k e' h q') = currentSessionId q')))"
  by (simp add: logLogout_def logReviewSubmitted_def logAdminPageAccess_def
      logUnauthorizedAccess_def logTokenRefresh_def logSearch_def logLogin_def logLoginFailed_def
      logLogin_then_def logLoginFailed_then_def push_def)

theorem enqueue_appends_one_event_witness:
  "synchronous (logSearch example_env ''The Dark Knight'' (audit example_session))
   \<and> (\<exists>ev. eventQueue (on_return (logSearch example_env ''The Dark Knight'' (audit example_session)))
               = eventQueue (audit example_session) @ [ev])
   \<and> \<not> synchronous (logLoginFailed ''The Dark Knight'' (audit example_session))
   \<and> on_return (logLoginFailed ''The Dark Knight'' (audit example_session)) = audit example_session"
  using enqueue_appends_one_event [of example_env "audit example_session" "''The Dark Knight''"]
  by blast

section \<open>A 401 response\<close>

lemma apiFetch_Awaits:
  "apiFetch a path opts = Awaits pre req k \<Longrightarrow> pre = [SetTimeout REQUEST_TIMEOUT_MS, Fetch req] \<and> k = apiFetch_then"
  by (auto simp: apiFetch_def Let_def split: sum.splits)

text \<open>
  Claim C6. When a call of \<^verbatim>\<open>apiFetch\<close> has sent its request and the response has
  status 401, the call rejects with \<^verbatim>\<open>Session expired. Please log in again.\<close>, whatever
  the body of the response; among all the effects of the call the logout handler is
  invoked once, \<^verbatim>\<open>window.location.href\<close> is assigned once, to \<^verbatim>\<open>/login\<close>, and the
  only request is the one already sent. The injected handler is taken to return.
\<close>

theorem unauthorized_response_logs_out:
  assumes "apiFetch a path opts = Awaits pre req k" and "status r = 401"
  shows "snd (k (Response r)) = Inl (PlainError ''Session expired. Please log in again.'')
       \<and> count_list (pre @ fst (k (Response r))) HandleLogout = 1
       \<and> [u. SetLocationHref u \<leftarrow> pre @ fst (k (Response r))] = [''/login'']
       \<and> [q. Fetch q \<leftarrow> pre @ fst (k (Response r))] = [req]
       \<and> (\<forall>b. k (Response (r\<lparr>json := b\<rparr>)) = k (Response r))"
  using apiFetch_Awaits [OF assms(1)] assms(2)
  by (simp add: apiFetch_then_def)

theorem unauthorized_response_logs_out_witness:
  "\<exists>pre req k. apiFetch example_api_env ''/api/reviews''
                  \<lparr>opt_method = Some ''POST'', opt_headers = [], opt_body = None\<rparr> = Awaits pre req k
     \<and> snd (k (Response \<lparr>status = 401, json = Some (JObject [(''message'', JString ''token revoked'')])\<rparr>))
         = Inl (PlainError ''Session expired. Please log in again.'')
     \<and> count_list (pre @ fst (k (Response \<lparr>status = 401, json = Some (JObject [(''message'', JString ''token revoked'')])\<rparr>)))
           HandleLogout = 1"
proof -
  obtain pre req k where a: "apiFetch example_api_env ''/api/reviews''
                  \<lparr>opt_method = Some ''POST'', opt_headers = [], opt_body = None\<rparr> = Awaits pre req k"
    by (simp add: apiFetch_def Let_def example_api_env_def MUTATING_METHODS_def getCsrfToken_def
        startsWith_def trim_def isWhiteSpace_def second_part_def)
  have b: "status \<lparr>status = 401, json = Some (JObject [(''message'', JString ''token revoked'')])\<rparr> = 401"
    by simp
  from unauthorized_response_logs_out [OF a b] a show ?thesis by blast
qed

end
